theory Spec2Isabelle
  imports Complex_Main
begin

section \<open>Long-tail training driver (lt\_train.py)\<close>

text \<open>
  A shallow embedding of the training driver: the learning-rate schedule
  (\<open>adjust_learning_rate\<close>), the per-epoch class re-weighting and loss selection of
  \<open>main_worker\<close>, the batch loops \<open>train\<close> and \<open>validate\<close>, and the best-accuracy
  bookkeeping of the epoch loop.

  Numbers. Python floats and numpy/torch float arrays are idealised: a finite float is a
  real number and no rounding takes place (so the conversion to a 32-bit tensor is the
  identity), but the IEEE special values that numpy produces instead of raising are kept,
  because an unguarded numpy division by zero yields \<open>inf\<close> or \<open>nan\<close> and goes on.
  Python integers are \<open>int\<close>, sample counts and class labels are \<open>nat\<close>.
\<close>

subsection \<open>Python errors and variables\<close>

datatype error = IndexError | NameError | ValueError | ZeroDivisionError

text \<open>A local variable of a Python function is unbound until its first assignment.\<close>

datatype 'a pyvar = Unbound | Bound 'a

text \<open>Reading a local variable: an unbound one raises (UnboundLocalError, a NameError).\<close>

definition read_var :: "'a pyvar \<Rightarrow> error + 'a" where
  "read_var v = (case v of Unbound \<Rightarrow> Inl NameError | Bound x \<Rightarrow> Inr x)"

text \<open>\<open>xs[i]\<close> on a Python list: negative indices count from the end.\<close>

definition getitem :: "'a list \<Rightarrow> int \<Rightarrow> error + 'a" where
  "getitem xs i =
     (if 0 \<le> i \<and> i < int (length xs) then Inr (xs ! nat i)
      else if - int (length xs) \<le> i \<and> i < 0 then Inr (xs ! nat (int (length xs) + i))
      else Inl IndexError)"

subsection \<open>Float arrays with the IEEE special values\<close>

datatype npfloat = Fin real | PInf | NInf | NaN

fun fadd :: "npfloat \<Rightarrow> npfloat \<Rightarrow> npfloat" where
  "fadd NaN y = NaN"
| "fadd x NaN = NaN"
| "fadd (Fin a) (Fin b) = Fin (a + b)"
| "fadd (Fin a) y = y"
| "fadd x (Fin b) = x"
| "fadd PInf PInf = PInf"
| "fadd NInf NInf = NInf"
| "fadd PInf NInf = NaN"
| "fadd NInf PInf = NaN"

fun fmul :: "npfloat \<Rightarrow> npfloat \<Rightarrow> npfloat" where
  "fmul NaN y = NaN"
| "fmul x NaN = NaN"
| "fmul (Fin a) (Fin b) = Fin (a * b)"
| "fmul (Fin a) PInf = (if a = 0 then NaN else if 0 < a then PInf else NInf)"
| "fmul (Fin a) NInf = (if a = 0 then NaN else if 0 < a then NInf else PInf)"
| "fmul PInf (Fin b) = (if b = 0 then NaN else if 0 < b then PInf else NInf)"
| "fmul NInf (Fin b) = (if b = 0 then NaN else if 0 < b then NInf else PInf)"
| "fmul PInf PInf = PInf"
| "fmul NInf NInf = PInf"
| "fmul PInf NInf = NInf"
| "fmul NInf PInf = NInf"

text \<open>
  Division as numpy does it: a zero divisor does not raise, it gives \<open>nan\<close> for \<open>0/0\<close> and
  an infinity otherwise. (Every zero divisor of this program is a positive zero: a count,
  or a difference \<open>1.0 - 1\<close>.)
\<close>

fun fdiv :: "npfloat \<Rightarrow> npfloat \<Rightarrow> npfloat" where
  "fdiv NaN y = NaN"
| "fdiv x NaN = NaN"
| "fdiv (Fin a) (Fin b) =
     (if b \<noteq> 0 then Fin (a / b) else if a = 0 then NaN else if 0 < a then PInf else NInf)"
| "fdiv (Fin a) y = Fin 0"
| "fdiv PInf (Fin b) = (if 0 \<le> b then PInf else NInf)"
| "fdiv NInf (Fin b) = (if 0 \<le> b then NInf else PInf)"
| "fdiv x y = NaN"

text \<open>\<open>np.sum\<close> of a one-dimensional array.\<close>

definition np_sum :: "npfloat list \<Rightarrow> npfloat" where
  "np_sum xs = foldl fadd (Fin 0) xs"

fun is_finite :: "npfloat \<Rightarrow> bool" where
  "is_finite (Fin a) = True"
| "is_finite x = False"

subsection \<open>Command-line arguments and the optimizer\<close>

text \<open>The fields of \<open>args\<close> that the driver reads.\<close>

record args =
  start_epoch :: int
  epochs :: int
  lr :: real
  train_rule :: string
  loss_type :: string

text \<open>
  A parameter group of the optimizer is a dictionary from option names to values; the
  tensors under \<open>params\<close> are opaque here.
\<close>

datatype pyval = PyNum real | PyBool bool | PyNone | PyTensors "nat list"

type_synonym param_group = "string \<rightharpoonup> pyval"

record sgd =
  param_groups :: "param_group list"

subsection \<open>The learning-rate schedule\<close>

definition adjust_learning_rate ::
  "'a sgd_scheme \<Rightarrow> int \<Rightarrow> 'b args_scheme \<Rightarrow> 'a sgd_scheme" where
  "adjust_learning_rate optimizer epoch0 a =
     (let epoch = epoch0 + 1;
          new_lr = (if epoch \<le> 5 then lr a * real_of_int epoch / 5
                    else if epoch > 180 then lr a * 0.0001
                    else if epoch > 160 then lr a * 0.01
                    else lr a)
      in optimizer\<lparr>param_groups :=
           map (\<lambda>param_group. param_group(''lr'' \<mapsto> PyNum new_lr)) (param_groups optimizer)\<rparr>)"

subsection \<open>Class re-weighting (main\_worker, the train-rule branch)\<close>

text \<open>
  The \<open>DRW\<close> branch: \<open>idx = epoch // 160\<close> selects \<open>beta\<close> from \<open>[0, 0.9999]\<close>, the
  effective number of class \<open>c\<close> is \<open>1 - beta ** n_c\<close> (\<open>np.power\<close>, with \<open>0 ** 0 = 1\<close>),
  the weight \<open>(1 - beta) / effective_num\<close> is divided by the sum of the weights and
  multiplied by the number of classes.
\<close>

definition betas :: "real list" where
  "betas = [0, 0.9999]"

definition drw_weights :: "int \<Rightarrow> nat list \<Rightarrow> error + npfloat list" where
  "drw_weights epoch cls_num_list =
     (let idx = epoch div 160 in
      case getitem betas idx of
        Inl e \<Rightarrow> Inl e
      | Inr beta \<Rightarrow>
          (let effective_num = map (\<lambda>n. 1.0 - beta ^ n) cls_num_list;
               w = map (\<lambda>x. fdiv (Fin (1.0 - beta)) (Fin x)) effective_num;
               total = np_sum w
           in Inr (map (\<lambda>x. fmul (fdiv x total) (Fin (real (length cls_num_list)))) w)))"

text \<open>The loss objects that the driver can construct, with their constructor arguments.\<close>

datatype criterion =
    CrossEntropyLoss "npfloat list option"
  | LDAMLoss "nat list" real real "npfloat list option"

fun weight_of :: "criterion \<Rightarrow> npfloat list option" where
  "weight_of (CrossEntropyLoss w) = w"
| "weight_of (LDAMLoss cls max_m s w) = w"

subsection \<open>Running averages\<close>

text \<open>
  Modelled from the spec: the class \<open>AverageMeter\<close> of the module \<open>utils\<close>, which is
  not among the sources. The train/validate loop "accumulates running metrics":
  \<open>update(val, n)\<close> records the last value, adds \<open>val * n\<close> to the sum and \<open>n\<close> to the
  count, and sets the average to their quotient; a fresh meter holds zeros.
\<close>

record AverageMeter =
  val :: real
  avg :: real
  sum_m :: real
  count :: nat

definition new_meter :: AverageMeter where
  "new_meter = \<lparr>val = 0, avg = 0, sum_m = 0, count = 0\<rparr>"

definition update :: "AverageMeter \<Rightarrow> real \<Rightarrow> nat \<Rightarrow> error + AverageMeter" where
  "update m v n =
     (let s = sum_m m + v * real n; c = count m + n
      in if c = 0 then Inl ZeroDivisionError
         else Inr \<lparr>val = v, avg = s / real c, sum_m = s, count = c\<rparr>)"

subsection \<open>The network, the loss and the optimizer step as parameters\<close>

text \<open>
  The tensor computations live in libraries and in modules that are not among the
  sources; the loops take them as parameters. \<open>'w\<close> is everything a training step
  changes (the weights, the batch-norm statistics, the momentum buffers), \<open>'x\<close> an input
  sample, \<open>'o\<close> the output tensor of a batch.
  \<^item> \<open>forward training w input\<close> is \<open>model(input)\<close> in train or in eval mode;
  \<^item> \<open>loss_value criterion output target\<close> is \<open>criterion(output, target).item()\<close>;
  \<^item> \<open>accuracy output target\<close> is \<open>accuracy(output, target, topk=(1, 5))\<close>, as the pair of
    the two first components;
  \<^item> \<open>argmax_rows output\<close> is the index tensor of \<open>torch.max(output, 1)\<close>;
  \<^item> \<open>sgd_step groups criterion w input target\<close> is \<open>zero_grad\<close>, \<open>backward\<close> and \<open>step\<close>.
\<close>

record ('w, 'x, 'o) learner =
  forward :: "bool \<Rightarrow> 'w \<Rightarrow> 'x list \<Rightarrow> 'o"
  loss_value :: "criterion \<Rightarrow> 'o \<Rightarrow> nat list \<Rightarrow> real"
  accuracy :: "'o \<Rightarrow> nat list \<Rightarrow> real \<times> real"
  argmax_rows :: "'o \<Rightarrow> nat list"
  sgd_step :: "param_group list \<Rightarrow> criterion \<Rightarrow> 'w \<Rightarrow> 'x list \<Rightarrow> nat list \<Rightarrow> 'w"

text \<open>A data loader is the list of its batches, each an input list with its targets.\<close>

type_synonym 'x loader = "('x list \<times> nat list) list"

subsection \<open>train\<close>

text \<open>
  The batch loop of \<open>train\<close>; \<open>input.size(0)\<close> is the number of samples of the batch.
  Printing and the log file are output only and are left out.
\<close>

fun train_loop ::
  "('w, 'x, 'o) learner \<Rightarrow> criterion \<Rightarrow> sgd \<Rightarrow> 'x loader \<Rightarrow>
   'w \<times> AverageMeter \<times> AverageMeter \<times> AverageMeter \<Rightarrow>
   error + 'w \<times> AverageMeter \<times> AverageMeter \<times> AverageMeter" where
  "train_loop L criterion optimizer [] s = Inr s"
| "train_loop L criterion optimizer ((input, target) # rest) (w, losses, top1, top5) =
     (let output = forward L True w input;
          loss = loss_value L criterion output target;
          acc = accuracy L output target
      in case update losses loss (length input) of
           Inl e \<Rightarrow> Inl e
         | Inr losses' \<Rightarrow>
        (case update top1 (fst acc) (length input) of
           Inl e \<Rightarrow> Inl e
         | Inr top1' \<Rightarrow>
        (case update top5 (snd acc) (length input) of
           Inl e \<Rightarrow> Inl e
         | Inr top5' \<Rightarrow>
             train_loop L criterion optimizer rest
               (sgd_step L (param_groups optimizer) criterion w input target,
                losses', top1', top5'))))"

definition train ::
  "('w, 'x, 'o) learner \<Rightarrow> 'x loader \<Rightarrow> 'w \<Rightarrow> criterion \<Rightarrow> sgd \<Rightarrow> error + 'w \<times> real \<times> real" where
  "train L train_loader w criterion optimizer =
     (case train_loop L criterion optimizer train_loader (w, new_meter, new_meter, new_meter) of
        Inl e \<Rightarrow> Inl e
      | Inr (w', losses, top1, top5) \<Rightarrow> Inr (w', avg top1, avg losses))"

subsection \<open>validate\<close>

text \<open>
  \<open>confusion_matrix(y_true, y_pred)\<close> of scikit-learn, by its documentation: the labels
  are the sorted distinct values that occur in either argument, entry \<open>(i, j)\<close> counts the
  samples whose true label is the \<open>i\<close>-th and whose predicted label is the \<open>j\<close>-th label,
  and arguments of different lengths are refused.
\<close>

definition unique_labels :: "nat list \<Rightarrow> nat list \<Rightarrow> nat list" where
  "unique_labels y_true y_pred = sort (remdups (y_true @ y_pred))"

definition confusion_matrix :: "nat list \<Rightarrow> nat list \<Rightarrow> error + nat list list" where
  "confusion_matrix y_true y_pred =
     (if length y_true \<noteq> length y_pred then Inl ValueError
      else let labels = unique_labels y_true y_pred
           in Inr (map (\<lambda>t. map (\<lambda>p. count_list (zip y_true y_pred) (t, p)) labels) labels))"

text \<open>The per-class accuracy that \<open>validate\<close> prints: diagonal over row sums.\<close>

definition class_accuracy :: "nat list \<Rightarrow> nat list \<Rightarrow> error + npfloat list" where
  "class_accuracy all_targets all_preds =
     (case confusion_matrix all_targets all_preds of
        Inl e \<Rightarrow> Inl e
      | Inr m \<Rightarrow>
          (let cf = map (map real) m;
               cls_cnt = map sum_list cf;
               cls_hit = map (\<lambda>i. cf ! i ! i) [0..<length cf];
               cls_acc = map (\<lambda>(h, c). fdiv (Fin h) (Fin c)) (zip cls_hit cls_cnt)
           in Inr cls_acc))"

fun validate_loop ::
  "('w, 'x, 'o) learner \<Rightarrow> criterion \<Rightarrow> 'w \<Rightarrow> 'x loader \<Rightarrow>
   AverageMeter \<times> AverageMeter \<times> AverageMeter \<times> nat list \<times> nat list \<Rightarrow>
   error + AverageMeter \<times> AverageMeter \<times> AverageMeter \<times> nat list \<times> nat list" where
  "validate_loop L criterion w [] s = Inr s"
| "validate_loop L criterion w ((input, target) # rest)
     (losses, top1, top5, all_preds, all_targets) =
     (let output = forward L False w input;
          loss = loss_value L criterion output target;
          acc = accuracy L output target
      in case update losses loss (length input) of
           Inl e \<Rightarrow> Inl e
         | Inr losses' \<Rightarrow>
        (case update top1 (fst acc) (length input) of
           Inl e \<Rightarrow> Inl e
         | Inr top1' \<Rightarrow>
        (case update top5 (snd acc) (length input) of
           Inl e \<Rightarrow> Inl e
         | Inr top5' \<Rightarrow>
             validate_loop L criterion w rest
               (losses', top1', top5', all_preds @ argmax_rows L output,
                all_targets @ target))))"

text \<open>
  \<open>validate\<close> returns the pair \<open>(top1.avg, losses.avg)\<close>; the third component here is the
  per-class accuracy array that it prints and logs.
\<close>

definition validate ::
  "('w, 'x, 'o) learner \<Rightarrow> 'x loader \<Rightarrow> 'w \<Rightarrow> criterion \<Rightarrow> error + real \<times> real \<times> npfloat list" where
  "validate L val_loader w criterion =
     (case validate_loop L criterion w val_loader (new_meter, new_meter, new_meter, [], []) of
        Inl e \<Rightarrow> Inl e
      | Inr (losses, top1, top5, all_preds, all_targets) \<Rightarrow>
          (case class_accuracy all_targets all_preds of
             Inl e \<Rightarrow> Inl e
           | Inr cls_acc \<Rightarrow> Inr (avg top1, avg losses, cls_acc)))"

subsection \<open>main\_worker\<close>

text \<open>
  What one completed epoch leaves behind: the scalars written to the summary writer at
  step \<open>epoch\<close>, the criterion it trained with, and the arguments of \<open>save_checkpoint\<close>
  (the saved \<open>epoch + 1\<close>, the saved \<open>best_acc1\<close> and the flag \<open>is_best\<close>).
\<close>

record epoch_record =
  epoch_no :: int
  criterion_used :: criterion
  train_acc :: real
  train_loss :: real
  test_acc :: real
  test_loss :: real
  saved_epoch :: int
  saved_best_acc1 :: real
  is_best :: bool

text \<open>
  The variables that \<open>main_worker\<close> reads and writes: the globals \<open>best_acc1\<close>,
  \<open>optimizer\<close> and \<open>model\<close>, its local \<open>per_cls_weights\<close>, the warnings it has issued
  and the record of the epochs it has completed.
\<close>

record 'w state =
  best_acc1 :: real
  optimizer :: sgd
  model :: 'w
  per_cls_weights :: "npfloat list option pyvar"
  warnings :: "string list"
  history :: "epoch_record list"

text \<open>The state in which the script calls \<open>main_worker\<close>: \<open>best_acc1 = 0\<close>.\<close>

definition initial_state :: "sgd \<Rightarrow> 'w \<Rightarrow> 'w state" where
  "initial_state opt w =
     \<lparr>best_acc1 = 0, optimizer = opt, model = w, per_cls_weights = Unbound,
      warnings = [], history = []\<rparr>"

text \<open>The train-rule branch: the value of \<open>per_cls_weights\<close> for this epoch.\<close>

definition reweighting ::
  "'a args_scheme \<Rightarrow> int \<Rightarrow> nat list \<Rightarrow> 'w state \<Rightarrow> error + 'w state" where
  "reweighting a epoch cls_num_list st =
     (if train_rule a = ''None'' then Inr (st\<lparr>per_cls_weights := Bound None\<rparr>)
      else if train_rule a = ''DRW'' then
        (case drw_weights epoch cls_num_list of
           Inl e \<Rightarrow> Inl e
         | Inr w \<Rightarrow> Inr (st\<lparr>per_cls_weights := Bound (Some w)\<rparr>))
      else Inr (st\<lparr>warnings := warnings st @ [''Sample rule is not listed'']\<rparr>))"

text \<open>
  The loss-type branch: the criterion of this epoch, or \<open>None\<close> when the loss type is
  not listed (the caller then warns and returns).
\<close>

definition loss_selector ::
  "'a args_scheme \<Rightarrow> nat list \<Rightarrow> 'w state \<Rightarrow> error + criterion option" where
  "loss_selector a cls_num_list st =
     (if loss_type a = ''CE'' then
        (case read_var (per_cls_weights st) of
           Inl e \<Rightarrow> Inl e
         | Inr w \<Rightarrow> Inr (Some (CrossEntropyLoss w)))
      else if loss_type a = ''LDAM'' then
        (case read_var (per_cls_weights st) of
           Inl e \<Rightarrow> Inl e
         | Inr w \<Rightarrow> Inr (Some (LDAMLoss cls_num_list 0.5 30 w)))
      else Inr None)"

text \<open>How the body of the epoch loop ends: it falls through, returns, or raises.\<close>

datatype 's flow = Continue 's | Return 's | Raise error 's

definition main_worker_epoch ::
  "('w, 'x, 'o) learner \<Rightarrow> 'a args_scheme \<Rightarrow> nat list \<Rightarrow> 'x loader \<Rightarrow> 'x loader \<Rightarrow>
   int \<Rightarrow> 'w state \<Rightarrow> 'w state flow" where
  "main_worker_epoch L a cls_num_list train_loader val_loader epoch st0 =
     (let st1 = st0\<lparr>optimizer := adjust_learning_rate (optimizer st0) epoch a\<rparr> in
      case reweighting a epoch cls_num_list st1 of
        Inl e \<Rightarrow> Raise e st1
      | Inr st2 \<Rightarrow>
     (case loss_selector a cls_num_list st2 of
        Inl e \<Rightarrow> Raise e st2
      | Inr None \<Rightarrow> Return (st2\<lparr>warnings := warnings st2 @ [''Loss type is not listed'']\<rparr>)
      | Inr (Some criterion) \<Rightarrow>
     (case train L train_loader (model st2) criterion (optimizer st2) of
        Inl e \<Rightarrow> Raise e st2
      | Inr (w', tr_acc, tr_loss) \<Rightarrow>
     (case validate L val_loader w' criterion of
        Inl e \<Rightarrow> Raise e (st2\<lparr>model := w'\<rparr>)
      | Inr (te_acc, te_loss, cls_acc) \<Rightarrow>
          (let best = (te_acc > best_acc1 st2);
               best_acc1' = max te_acc (best_acc1 st2)
           in Continue (st2\<lparr>model := w', best_acc1 := best_acc1',
                 history := history st2 @
                   [\<lparr>epoch_no = epoch, criterion_used = criterion,
                     train_acc = tr_acc, train_loss = tr_loss,
                     test_acc = te_acc, test_loss = te_loss,
                     saved_epoch = epoch + 1, saved_best_acc1 = best_acc1',
                     is_best = best\<rparr>]\<rparr>))))))"

fun main_worker_loop ::
  "('w, 'x, 'o) learner \<Rightarrow> 'a args_scheme \<Rightarrow> nat list \<Rightarrow> 'x loader \<Rightarrow> 'x loader \<Rightarrow>
   int list \<Rightarrow> 'w state \<Rightarrow> 'w state flow" where
  "main_worker_loop L a cls_num_list train_loader val_loader [] st = Continue st"
| "main_worker_loop L a cls_num_list train_loader val_loader (epoch # rest) st =
     (case main_worker_epoch L a cls_num_list train_loader val_loader epoch st of
        Continue st' \<Rightarrow> main_worker_loop L a cls_num_list train_loader val_loader rest st'
      | Return st' \<Rightarrow> Return st'
      | Raise e st' \<Rightarrow> Raise e st')"

text \<open>
  \<open>range(args.start_epoch, args.epochs)\<close>; the local \<open>per_cls_weights\<close> is unbound when the
  function is entered.
\<close>

definition epoch_range :: "'a args_scheme \<Rightarrow> int list" where
  "epoch_range a = [start_epoch a .. epochs a - 1]"

definition main_worker ::
  "('w, 'x, 'o) learner \<Rightarrow> 'a args_scheme \<Rightarrow> nat list \<Rightarrow> 'x loader \<Rightarrow> 'x loader \<Rightarrow>
   'w state \<Rightarrow> 'w state flow" where
  "main_worker L a cls_num_list train_loader val_loader st =
     main_worker_loop L a cls_num_list train_loader val_loader (epoch_range a)
       (st\<lparr>per_cls_weights := Unbound\<rparr>)"

text \<open>The state in which a run ended, however it ended.\<close>

fun final_state :: "'s flow \<Rightarrow> 's" where
  "final_state (Continue st) = st"
| "final_state (Return st) = st"
| "final_state (Raise e st) = st"

subsection \<open>Example inputs\<close>

text \<open>Small concrete inputs, on which the theorems below are instantiated.\<close>

definition example_sgd :: sgd where
  "example_sgd = \<lparr>param_groups = [[''lr'' \<mapsto> PyNum 0.1, ''momentum'' \<mapsto> PyNum 0.9]]\<rparr>"

definition example_args :: args where
  "example_args =
     \<lparr>start_epoch = 0, epochs = 2, lr = 0.1, train_rule = ''DRW'', loss_type = ''CE''\<rparr>"


section \<open>Verification\<close>

subsection \<open>Deferred re-weighting\<close>

lemma foldl_fadd_Fin: "foldl fadd (Fin a) (map Fin xs) = Fin (a + sum_list xs)"
  by (induction xs arbitrary: a) (simp_all add: add.assoc)

lemma np_sum_Fin: "np_sum (map Fin xs) = Fin (sum_list xs)"
  by (simp add: np_sum_def foldl_fadd_Fin)

lemma getitem_betas:
  "getitem betas q =
     (if q = 0 \<or> q = -2 then Inr 0
      else if q = 1 \<or> q = -1 then Inr 0.9999
      else Inl IndexError)"
proof -
  consider "q < -2" | "q = -2" | "q = -1" | "q = 0" | "q = 1" | "1 < q"
    by linarith
  then show ?thesis
    by cases (simp_all add: getitem_def betas_def)
qed

lemma div_160_eq:
  fixes e :: int
  shows "e div 160 = q \<longleftrightarrow> 160 * q \<le> e \<and> e < 160 * q + 160"
proof -
  have "e = 160 * (e div 160) + e mod 160" by simp
  moreover have "0 \<le> e mod 160" and "e mod 160 < 160" by simp_all
  ultimately show ?thesis by linarith
qed

lemma div_160_cases:
  fixes e :: int
  shows "e div 160 = 0 \<longleftrightarrow> 0 \<le> e \<and> e < 160"
    and "e div 160 = 1 \<longleftrightarrow> 160 \<le> e \<and> e < 320"
    and "e div 160 = -1 \<longleftrightarrow> -160 \<le> e \<and> e < 0"
    and "e div 160 = -2 \<longleftrightarrow> -320 \<le> e \<and> e < -160"
  unfolding div_160_eq by simp_all

lemma betas_index:
  "getitem betas (e div 160) =
     (if 0 \<le> e \<and> e < 160 \<or> -320 \<le> e \<and> e < -160 then Inr 0
      else if 160 \<le> e \<and> e < 320 \<or> -160 \<le> e \<and> e < 0 then Inr 0.9999
      else Inl IndexError)"
  unfolding getitem_betas div_160_cases by (rule refl)

lemma drw_weights_finite:
  assumes idx: "getitem betas (e div 160) = Inr beta"
    and pos: "\<forall>n\<in>set cls. 1 - beta ^ n \<noteq> 0"
  shows "drw_weights e cls =
           Inr (map (\<lambda>n. fmul (fdiv (Fin ((1 - beta) / (1 - beta ^ n)))
                                (Fin (sum_list (map (\<lambda>n. (1 - beta) / (1 - beta ^ n)) cls))))
                          (Fin (real (length cls)))) cls)"
proof -
  have w: "map (\<lambda>x. fdiv (Fin (1.0 - beta)) (Fin x)) (map (\<lambda>n. 1.0 - beta ^ n) cls)
             = map Fin (map (\<lambda>n. (1 - beta) / (1 - beta ^ n)) cls)"
    using pos by (induction cls) auto
  show ?thesis
    unfolding drw_weights_def Let_def idx sum.case w np_sum_Fin by (simp add: o_def)
qed

lemma drw_uniform:
  assumes "\<forall>n\<in>set cls. 0 < n" "0 \<le> e" "e < 160"
  shows "drw_weights e cls = Inr (replicate (length cls) (Fin 1))"
proof -
  have idx: "getitem betas (e div 160) = Inr 0"
    unfolding betas_index using assms(2,3) by simp
  have w: "map (\<lambda>n. (1 - 0) / (1 - (0::real) ^ n)) cls = map (\<lambda>n. 1) cls"
    by (rule map_cong) (use assms(1) in \<open>auto simp: power_0_left\<close>)
  have s: "sum_list (map (\<lambda>n. 1::real) cls) = real (length cls)"
    by (induction cls) auto
  have "drw_weights e cls =
        Inr (map (\<lambda>n. fmul (fdiv (Fin ((1 - 0) / (1 - 0 ^ n)))
                                (Fin (sum_list (map (\<lambda>n. (1 - 0) / (1 - 0 ^ n)) cls))))
                          (Fin (real (length cls)))) cls)"
  proof -
    have "\<forall>n\<in>set cls. 1 - (0::real) ^ n \<noteq> 0"
      using assms(1) by (auto simp: power_0_left)
    then show ?thesis by (rule drw_weights_finite[OF idx])
  qed
  also have "\<dots> = Inr (map (\<lambda>n. Fin 1) cls)"
  proof (cases "cls = []")
    case True then show ?thesis by simp
  next
    case False
    then have k: "real (length cls) \<noteq> 0" by simp
    show ?thesis unfolding w s using assms(1) k by (auto simp: power_0_left)
  qed
  finally show ?thesis by (simp add: map_replicate_const)
qed

lemma drw_weight_pos:
  assumes "0 < n" shows "0 < (1 - 0.9999) / (1 - (0.9999::real) ^ n)"
proof -
  obtain m where "n = Suc m" using assms by (cases n) auto
  then have "(0.9999::real) ^ n < 1" using power_Suc_less_one[of "0.9999::real" m] by simp
  then show ?thesis by simp
qed

lemma sum_list_positive:
  fixes xs :: "real list"
  shows "xs \<noteq> [] \<Longrightarrow> \<forall>x\<in>set xs. 0 < x \<Longrightarrow> 0 < sum_list xs"
proof (induction xs)
  case Nil then show ?case by simp
next
  case (Cons x xs)
  then show ?case by (cases "xs = []") (auto intro: add_pos_pos)
qed

lemma drw_rescaled:
  assumes "\<forall>n\<in>set cls. 0 < n" "160 \<le> e" "e < 320"
  shows "drw_weights e cls =
           Inr (map (\<lambda>n. Fin ((1 - 0.9999) / (1 - 0.9999 ^ n)
                            / sum_list (map (\<lambda>n. (1 - 0.9999) / (1 - 0.9999 ^ n)) cls)
                            * real (length cls))) cls)"
proof -
  have idx: "getitem betas (e div 160) = Inr 0.9999"
    unfolding betas_index using assms(2,3) by simp
  have pos: "\<forall>n\<in>set cls. 0 < (1 - 0.9999) / (1 - (0.9999::real) ^ n)"
    using assms(1) drw_weight_pos by blast
  then have nz: "\<forall>n\<in>set cls. 1 - (0.9999::real) ^ n \<noteq> 0"
    by auto
  show ?thesis
  proof (cases "cls = []")
    case True then show ?thesis unfolding drw_weights_finite[OF idx nz] by simp
  next
    case False
    have "0 < sum_list (map (\<lambda>n. (1 - 0.9999) / (1 - (0.9999::real) ^ n)) cls)"
      using pos False by (intro sum_list_positive) auto
    then show ?thesis unfolding drw_weights_finite[OF idx nz] by simp
  qed
qed

lemma sum_list_rescale:
  fixes f :: "'a \<Rightarrow> real"
  shows "sum_list (map (\<lambda>n. f n / t * k) xs) = sum_list (map f xs) / t * k"
  by (induction xs) (simp_all add: add_divide_distrib distrib_right)

text \<open>
  Claim C1, as amended. Under the \<open>DRW\<close> train rule, when every class has at least one
  sample: for every epoch \<open>0 \<le> e < 160\<close> the weight vector is uniform, every weight
  being exactly \<open>1\<close>; for every epoch \<open>160 \<le> e < 320\<close> the weight of a class with \<open>n\<close>
  samples is \<open>(1 - 0.9999) / (1 - 0.9999 ^ n)\<close> divided by the sum of these quotients
  and multiplied by the number of classes, and the weights sum to the number of
  classes.
\<close>

theorem drw_deferred_reweighting:
  assumes "train_rule a = ''DRW''" and "\<forall>n\<in>set cls_num_list. 0 < n"
  shows "(0 \<le> e \<and> e < 160 \<longrightarrow>
            reweighting a e cls_num_list st =
              Inr (st\<lparr>per_cls_weights := Bound (Some (replicate (length cls_num_list) (Fin 1)))\<rparr>)) \<and>
         (160 \<le> e \<and> e < 320 \<longrightarrow>
            (let w = (\<lambda>n. (1 - 0.9999) / (1 - 0.9999 ^ n));
                 total = sum_list (map w cls_num_list);
                 k = real (length cls_num_list)
             in reweighting a e cls_num_list st =
                  Inr (st\<lparr>per_cls_weights :=
                          Bound (Some (map (\<lambda>n. Fin (w n / total * k)) cls_num_list))\<rparr>) \<and>
                sum_list (map (\<lambda>n. w n / total * k) cls_num_list) = k))"
proof (intro conjI impI)
  assume "0 \<le> e \<and> e < 160"
  then show "reweighting a e cls_num_list st =
      Inr (st\<lparr>per_cls_weights := Bound (Some (replicate (length cls_num_list) (Fin 1)))\<rparr>)"
    using assms by (simp add: reweighting_def drw_uniform)
next
  assume e: "160 \<le> e \<and> e < 320"
  let ?w = "\<lambda>n. (1 - 0.9999) / (1 - (0.9999::real) ^ n)"
  let ?total = "sum_list (map ?w cls_num_list)"
  have rw: "reweighting a e cls_num_list st =
      Inr (st\<lparr>per_cls_weights :=
        Bound (Some (map (\<lambda>n. Fin (?w n / ?total * real (length cls_num_list))) cls_num_list))\<rparr>)"
    using assms e by (simp add: reweighting_def drw_rescaled)
  have sm: "sum_list (map (\<lambda>n. ?w n / ?total * real (length cls_num_list)) cls_num_list)
              = real (length cls_num_list)"
  proof (cases "cls_num_list = []")
    case True then show ?thesis by simp
  next
    case False
    have "\<forall>x\<in>set (map ?w cls_num_list). 0 < x"
      using assms(2) drw_weight_pos by auto
    then have "0 < ?total" using False by (intro sum_list_positive) auto
    then show ?thesis unfolding sum_list_rescale by simp
  qed
  show "let w = (\<lambda>n. (1 - 0.9999) / (1 - 0.9999 ^ n));
            total = sum_list (map w cls_num_list);
            k = real (length cls_num_list)
        in reweighting a e cls_num_list st =
             Inr (st\<lparr>per_cls_weights :=
                     Bound (Some (map (\<lambda>n. Fin (w n / total * k)) cls_num_list))\<rparr>) \<and>
           sum_list (map (\<lambda>n. w n / total * k) cls_num_list) = k"
    unfolding Let_def using rw sm by simp
qed

text \<open>The theorem at two classes with one and two samples, at epochs 0 and 160.\<close>

theorem drw_deferred_reweighting_witness:
  "reweighting example_args 0 [1, 2] (initial_state example_sgd ()) =
     Inr ((initial_state example_sgd ())\<lparr>per_cls_weights := Bound (Some [Fin 1, Fin 1])\<rparr>) \<and>
   reweighting example_args 160 [1, 2] (initial_state example_sgd ()) =
     Inr ((initial_state example_sgd ())\<lparr>per_cls_weights :=
            Bound (Some [Fin (39998 / 29999), Fin (20000 / 29999)])\<rparr>)"
proof -
  have r: "train_rule example_args = ''DRW''"
    by (simp add: example_args_def)
  have p: "\<forall>n\<in>set [1, 2::nat]. 0 < n"
    by simp
  note t0 = drw_deferred_reweighting [OF r p, of 0 "initial_state example_sgd ()"]
  note t1 = drw_deferred_reweighting [OF r p, of 160 "initial_state example_sgd ()",
      unfolded Let_def]
  have a: "reweighting example_args 0 [1, 2] (initial_state example_sgd ()) =
     Inr ((initial_state example_sgd ())\<lparr>per_cls_weights := Bound (Some [Fin 1, Fin 1])\<rparr>)"
    using t0 by (simp add: numeral_2_eq_2)
  have w1: "(1 - 0.9999) / (1 - (0.9999::real) ^ 1) = 1"
    by simp
  have w2: "(1 - 0.9999) / (1 - (0.9999::real) ^ 2) = 10000 / 19999"
    by (simp add: power2_eq_square)
  have v1: "1 / (1 + 10000 / 19999) * (2::real) = 39998 / 29999"
    by simp
  have v2: "10000 / 19999 / (1 + 10000 / 19999) * (2::real) = 20000 / 29999"
    by simp
  have len: "real (length [1, 2::nat]) = 2"
    by simp
  have "160 \<le> (160::int) \<and> (160::int) < 320"
    by simp
  with t1 have b: "reweighting example_args 160 [1, 2] (initial_state example_sgd ()) =
     Inr ((initial_state example_sgd ())\<lparr>per_cls_weights :=
            Bound (Some [Fin (39998 / 29999), Fin (20000 / 29999)])\<rparr>)"
    unfolding list.map sum_list.Cons sum_list.Nil w1 w2 len add_0_right v1 v2 by blast
  show ?thesis
    using a b by (rule conjI)
qed

text \<open>
  Claim C1 as stated fails when a class has no sample: at epoch 0, with the counts
  \<open>[0, 5]\<close>, \<open>0 ** 0 = 1\<close> makes the first effective number \<open>0\<close>, the first raw weight is
  \<open>1 / 0 = inf\<close>, so is the sum, and the weights are \<open>[nan, 0]\<close>, not \<open>[1, 1]\<close>.
\<close>

theorem drw_zero_count_counterexample:
  "reweighting example_args 0 [0, 5] (initial_state example_sgd ()) =
     Inr ((initial_state example_sgd ())\<lparr>per_cls_weights := Bound (Some [NaN, Fin 0])\<rparr>)"
  by (simp add: reweighting_def example_args_def drw_weights_def getitem_def betas_def np_sum_def)

subsection \<open>The learning-rate schedule\<close>

text \<open>
  Claim C2. For every epoch \<open>e\<close> and base rate \<open>lr a\<close>, \<open>adjust_learning_rate\<close> sets the
  entry \<open>lr\<close> of every parameter group to \<open>lr a * (e + 1) / 5\<close> when \<open>e + 1 \<le> 5\<close>, to
  \<open>lr a\<close> when \<open>5 < e + 1 \<le> 160\<close>, to \<open>lr a * 0.01\<close> when \<open>160 < e + 1 \<le> 180\<close> and to
  \<open>lr a * 0.0001\<close> when \<open>e + 1 > 180\<close>; every other entry of every group, the number of
  groups and the rest of the optimizer stay as they are.
\<close>

theorem adjust_learning_rate_schedule:
  assumes "i < length (param_groups opt)"
  shows "(let g = param_groups opt ! i;
              g' = param_groups (adjust_learning_rate opt e a) ! i
          in (e + 1 \<le> 5 \<longrightarrow> g' ''lr'' = Some (PyNum (lr a * real_of_int (e + 1) / 5))) \<and>
             (5 < e + 1 \<and> e + 1 \<le> 160 \<longrightarrow> g' ''lr'' = Some (PyNum (lr a))) \<and>
             (160 < e + 1 \<and> e + 1 \<le> 180 \<longrightarrow> g' ''lr'' = Some (PyNum (lr a * 0.01))) \<and>
             (180 < e + 1 \<longrightarrow> g' ''lr'' = Some (PyNum (lr a * 0.0001))) \<and>
             (\<forall>k. k \<noteq> ''lr'' \<longrightarrow> g' k = g k)) \<and>
         length (param_groups (adjust_learning_rate opt e a)) = length (param_groups opt) \<and>
         sgd.more (adjust_learning_rate opt e a) = sgd.more opt"
  using assms by (simp add: adjust_learning_rate_def Let_def)

text \<open>The schedule at epochs 2, 100, 170 and 200 with base rate 0.1.\<close>

theorem adjust_learning_rate_schedule_witness:
  "(param_groups (adjust_learning_rate example_sgd 2 example_args) ! 0) ''lr'' = Some (PyNum 0.06) \<and>
   (param_groups (adjust_learning_rate example_sgd 100 example_args) ! 0) ''lr'' = Some (PyNum 0.1) \<and>
   (param_groups (adjust_learning_rate example_sgd 170 example_args) ! 0) ''lr'' = Some (PyNum 0.001) \<and>
   (param_groups (adjust_learning_rate example_sgd 200 example_args) ! 0) ''lr'' = Some (PyNum 0.00001) \<and>
   (param_groups (adjust_learning_rate example_sgd 200 example_args) ! 0) ''momentum'' = Some (PyNum 0.9) \<and>
   length (param_groups (adjust_learning_rate example_sgd 200 example_args)) = 1"
proof -
  have len: "0 < length (param_groups example_sgd)"
    by (simp add: example_sgd_def)
  note t = adjust_learning_rate_schedule [OF len, of _ example_args, unfolded Let_def]
  have a: "(param_groups (adjust_learning_rate example_sgd 2 example_args) ! 0) ''lr''
             = Some (PyNum (lr example_args * real_of_int (2 + 1) / 5))"
    using t [of 2] by simp
  have b: "(param_groups (adjust_learning_rate example_sgd 100 example_args) ! 0) ''lr''
             = Some (PyNum (lr example_args))"
    using t [of 100] by simp
  have c: "(param_groups (adjust_learning_rate example_sgd 170 example_args) ! 0) ''lr''
             = Some (PyNum (lr example_args * 0.01))"
    using t [of 170] by simp
  have d: "(param_groups (adjust_learning_rate example_sgd 200 example_args) ! 0) ''lr''
             = Some (PyNum (lr example_args * 0.0001))"
    using t [of 200] by simp
  have m: "(param_groups (adjust_learning_rate example_sgd 200 example_args) ! 0) ''momentum''
             = (param_groups example_sgd ! 0) ''momentum''"
    using t [of 200] by simp
  have n: "length (param_groups (adjust_learning_rate example_sgd 200 example_args))
             = length (param_groups example_sgd)"
    using t [of 200] by simp
  show ?thesis
    unfolding a b c d m n by (simp add: example_sgd_def example_args_def)
qed

end
